theory Spec2Isabelle
  imports Complex_Main
begin

section \<open>JavaScript numbers and values\<close>

text \<open>
  The vector store computes with JavaScript numbers. A number is modelled as a real, or
  as \<open>NaN\<close>; rounding, overflow to an infinity and the sign of zero are left out. The
  operators below follow the language: \<open>NaN\<close> is absorbing.
\<close>

datatype jsnum = NaN | Number real

fun jadd :: "jsnum \<Rightarrow> jsnum \<Rightarrow> jsnum" where
  "jadd (Number x) (Number y) = Number (x + y)"
| "jadd _ _ = NaN"

fun jsub :: "jsnum \<Rightarrow> jsnum \<Rightarrow> jsnum" where
  "jsub (Number x) (Number y) = Number (x - y)"
| "jsub _ _ = NaN"

fun jmul :: "jsnum \<Rightarrow> jsnum \<Rightarrow> jsnum" where
  "jmul (Number x) (Number y) = Number (x * y)"
| "jmul _ _ = NaN"

text \<open>
  A finite number divided by zero is an infinity or \<open>NaN\<close> in JavaScript; infinities are
  not part of this model, and the quotient is \<open>NaN\<close> there. \<open>cosineSimilarity\<close> divides
  only after both squared norms were found different from zero.
\<close>

fun jdiv :: "jsnum \<Rightarrow> jsnum \<Rightarrow> jsnum" where
  "jdiv (Number x) (Number y) = (if y = 0 then NaN else Number (x / y))"
| "jdiv _ _ = NaN"

fun jsqrt :: "jsnum \<Rightarrow> jsnum" where
  "jsqrt (Number x) = (if x < 0 then NaN else Number (sqrt x))"
| "jsqrt NaN = NaN"

text \<open>
  The values an array returned by a vector parser can hold: numbers, and (since the
  array's element type is not checked at run time) \<open>undefined\<close> and \<open>null\<close>.
\<close>

datatype jsval = JNum jsnum | JUndefined | JNull

text \<open>\<open>ToNumber\<close>, applied by \<open>*\<close> to its operands.\<close>

fun toNumber :: "jsval \<Rightarrow> jsnum" where
  "toNumber (JNum n) = n"
| "toNumber JUndefined = NaN"
| "toNumber JNull = Number 0"

text \<open>\<open>typeof v === 'number'\<close>.\<close>

fun isNumber :: "jsval \<Rightarrow> bool" where
  "isNumber (JNum _) = True"
| "isNumber _ = False"

text \<open>An array read \<open>xs[i]\<close>: \<open>undefined\<close> past the end.\<close>

definition elemAt :: "jsval list \<Rightarrow> nat \<Rightarrow> jsval" where
  "elemAt xs i = (if i < length xs then xs ! i else JUndefined)"

section \<open>Cosine similarity\<close>

text \<open>
  The loop of \<open>cosineSimilarity\<close>: \<open>i\<close> runs over the indices of \<open>a\<close> only; the state is
  \<open>(dotProduct, normA, normB)\<close>.
\<close>

function cosineLoop ::
  "jsval list \<Rightarrow> jsval list \<Rightarrow> nat \<Rightarrow> jsnum \<times> jsnum \<times> jsnum \<Rightarrow> jsnum \<times> jsnum \<times> jsnum" where
  "cosineLoop a b i (dotProduct, normA, normB) =
     (if i < length a
      then cosineLoop a b (i + 1)
             (jadd dotProduct (jmul (toNumber (elemAt a i)) (toNumber (elemAt b i))),
              jadd normA (jmul (toNumber (elemAt a i)) (toNumber (elemAt a i))),
              jadd normB (jmul (toNumber (elemAt b i)) (toNumber (elemAt b i))))
      else (dotProduct, normA, normB))"
  by pat_completeness auto
termination
  by (relation "measure (\<lambda>(a, b, i, s). length a - i)") auto

declare cosineLoop.simps [simp del]

definition cosineSimilarity :: "jsval list \<Rightarrow> jsval list \<Rightarrow> jsnum" where
  "cosineSimilarity a b =
     (case cosineLoop a b 0 (Number 0, Number 0, Number 0) of
        (dotProduct, normA, normB) \<Rightarrow>
          if normA = Number 0 \<or> normB = Number 0 then Number 0
          else jdiv dotProduct (jmul (jsqrt normA) (jsqrt normB)))"



definition numbers :: "real list \<Rightarrow> jsval list" where
  "numbers a = map (\<lambda>x. JNum (Number x)) a"


text \<open>The comparisons \<open>x > y\<close> and \<open>x >= y\<close>: false as soon as one side is \<open>NaN\<close>.\<close>

fun jgt :: "jsnum \<Rightarrow> jsnum \<Rightarrow> bool" where
  "jgt (Number x) (Number y) = (x > y)"
| "jgt _ _ = False"


text \<open>\<open>x || y\<close> on numbers: \<open>0\<close> and \<open>NaN\<close> are falsy.\<close>

definition jsOr :: "jsnum \<Rightarrow> jsnum \<Rightarrow> jsnum" where
  "jsOr x y = (if x = NaN \<or> x = Number 0 then y else x)"

section \<open>The data model\<close>

record 'm MemoryDocument =
  content :: string
  metadata :: "'m option"

definition doc :: "string \<Rightarrow> 'm option \<Rightarrow> 'm MemoryDocument" where
  "doc c m = \<lparr>content = c, metadata = m\<rparr>"

record 'm MemoryVectorData =
  document :: "'m MemoryDocument"
  vector :: "jsval list"

text \<open>A search result is a document with its score.\<close>

record 'm ScoredDocument = "'m MemoryDocument" +
  score :: jsnum

text \<open>The value type of the backing map, \<open>{ metadata?: T; vector: number[] }\<close>.\<close>

record 'm entry =
  entry_metadata :: "'m option"
  entry_vector :: "jsval list"

type_synonym 'm MemoryVectorDataSerialize = "string \<times> jsval list \<times> 'm option"

definition serializeItem :: "string \<times> 'm entry \<Rightarrow> 'm MemoryVectorDataSerialize" where
  "serializeItem e = (fst e, entry_vector (snd e), entry_metadata (snd e))"

subsection \<open>The backing map\<close>

text \<open>
  A JavaScript \<open>Map\<close> keeps its keys in insertion order: it is an association list here.
  \<open>set\<close> on a key that is present replaces the value where it stands, \<open>set\<close> on a new
  key appends.
\<close>

fun map_set :: "string \<Rightarrow> 'v \<Rightarrow> (string \<times> 'v) list \<Rightarrow> (string \<times> 'v) list" where
  "map_set k v [] = [(k, v)]"
| "map_set k v (p # ps) = (if fst p = k then (k, v) # ps else p # map_set k v ps)"

definition map_get :: "string \<Rightarrow> (string \<times> 'v) list \<Rightarrow> 'v option" where
  "map_get k m = map_of m k"

definition map_delete :: "string \<Rightarrow> (string \<times> 'v) list \<Rightarrow> (string \<times> 'v) list" where
  "map_delete k m = filter (\<lambda>p. fst p \<noteq> k) m"

definition keys :: "(string \<times> 'v) list \<Rightarrow> string list" where
  "keys m = map fst m"

record 'm StoreCache =
  dirty :: bool
  store :: "(string \<times> 'm entry) list"

record MemoryVectorStoreOptions =
  autoSave :: bool
  debug :: bool
  maxFileSizeMB :: jsnum
  storagePath :: "string option"

subsection \<open>The vector parser\<close>

text \<open>
  What a call of the caller's parser gives: it throws (or its promise rejects), or it
  returns a value that is an array or is not one. The parser may answer differently
  from call to call, so it is a function of the contents it was called with so far.
\<close>

datatype parsed = ParserThrows string | NotArray jsval | IsArray "jsval list"

type_synonym MemoryVectorParser = "string list \<Rightarrow> string \<Rightarrow> parsed"

subsection \<open>The gate\<close>

text \<open>
  \<open>Locker\<close> holds one promise and its resolver. \<open>promise\<close> counts the promises made, so
  that it names the current one; \<open>resolved\<close> says whether the current one is resolved.
\<close>

record Locker =
  promise :: nat
  resolved :: bool

definition lock :: "Locker \<Rightarrow> Locker" where
  "lock l = \<lparr>promise = promise l + 1, resolved = False\<rparr>"

definition unLock :: "Locker \<Rightarrow> Locker" where
  "unLock l = l\<lparr>resolved := True\<rparr>"

definition newLocker :: Locker where
  "newLocker = lock \<lparr>promise = 0, resolved = True\<rparr>"

subsection \<open>An index handle and the process state\<close>

text \<open>
  A \<open>VectorStore\<close> object refers to its \<open>StoreCache\<close> and to its \<open>Locker\<close>; both are
  objects that are mutated in place, and a \<open>StoreCache\<close> can be reached from several
  handles. The handle therefore holds their addresses, and the objects live in the
  process state.
\<close>

record VectorStore =
  vectorParser :: MemoryVectorParser
  options :: MemoryVectorStoreOptions
  cache :: nat
  saveLock :: nat

text \<open>
  The storage behind both providers is a table from keys to contents; a content that
  \<open>JSON.parse\<close> refuses is \<open>Unreadable\<close>.
\<close>

datatype 'm stored = Unreadable | Snapshot "'m MemoryVectorDataSerialize list"

datatype 'm call = Exists string | Load string | Save string "'m MemoryVectorDataSerialize list"

record 'm world =
  caches :: "nat \<Rightarrow> 'm StoreCache"
  nCaches :: nat
  lockers :: "nat \<Rightarrow> Locker"
  nLockers :: nat
  globalCache :: "string \<rightharpoonup> nat"
  timers :: "string \<rightharpoonup> VectorStore"
  storage :: "string \<rightharpoonup> 'm stored"
  writeFails :: "string \<Rightarrow> bool"
  providerCalls :: "'m call list"
  parserCalls :: "string list"

text \<open>
  \<open>timers\<close> is the table of \<open>debounce\<close>, restricted to the timeouts that have not fired:
  a key has the handle whose save task waits. \<open>providerCalls\<close> and \<open>parserCalls\<close> record
  the calls made to the storage provider and to the parsers, in order. \<open>writeFails\<close>
  says for which keys the provider's \<open>save\<close> throws.
\<close>

definition theCache :: "VectorStore \<Rightarrow> 'm world \<Rightarrow> 'm StoreCache" where
  "theCache h w = caches w (cache h)"

definition setCache :: "VectorStore \<Rightarrow> 'm StoreCache \<Rightarrow> 'm world \<Rightarrow> 'm world" where
  "setCache h c w = w\<lparr>caches := (caches w)(cache h := c)\<rparr>"

section \<open>Persistence\<close>

text \<open>
  \<open>save\<close>: nothing when the state is clean or the path is falsy; otherwise the gate is
  locked and the save task is scheduled under the path, replacing a task that waits
  there.
\<close>

definition save :: "VectorStore \<Rightarrow> 'm world \<Rightarrow> 'm world" where
  "save h w =
     (case storagePath (options h) of
        None \<Rightarrow> w
      | Some p \<Rightarrow>
          if \<not> dirty (theCache h w) \<or> p = [] then w
          else w\<lparr>lockers := (lockers w)(saveLock h := lock (lockers w (saveLock h))),
                 timers := (timers w)(p \<mapsto> h)\<rparr>)"

definition maxSizeBytes :: "MemoryVectorStoreOptions \<Rightarrow> jsnum" where
  "maxSizeBytes opts =
     jmul (jmul (jsOr (maxFileSizeMB opts) (Number 500)) (Number 1024)) (Number 1024)"

text \<open>
  The trimming loop. \<open>byteLength\<close> stands for
  \<open>Buffer.byteLength(JSON.stringify(data), 'utf8')\<close>, which belongs to the platform and
  is a parameter here.
\<close>

definition tooBig ::
  "('m MemoryVectorDataSerialize list \<Rightarrow> nat) \<Rightarrow> jsnum \<Rightarrow> 'm MemoryVectorDataSerialize list \<Rightarrow> bool" where
  "tooBig byteLength limit xs = jgt (Number (real (byteLength xs))) limit"

fun trim ::
  "('m MemoryVectorDataSerialize list \<Rightarrow> nat) \<Rightarrow> jsnum \<Rightarrow>
   'm MemoryVectorDataSerialize list \<Rightarrow> 'm MemoryVectorDataSerialize list" where
  "trim byteLength limit [] = []"
| "trim byteLength limit (x # xs) =
     (if tooBig byteLength limit (x # xs) then trim byteLength limit xs else x # xs)"

definition rebuild :: "'m MemoryVectorDataSerialize list \<Rightarrow> (string \<times> 'm entry) list" where
  "rebuild items =
     foldl (\<lambda>m item. map_set (fst item)
              \<lparr>entry_metadata = snd (snd item), entry_vector = fst (snd item)\<rparr> m) [] items"

text \<open>The scheduled task of \<open>save\<close>, run for the handle \<open>h\<close> and its path \<open>p\<close>.\<close>

definition saveTask ::
  "('m MemoryVectorDataSerialize list \<Rightarrow> nat) \<Rightarrow> VectorStore \<Rightarrow> string \<Rightarrow> 'm world \<Rightarrow> 'm world" where
  "saveTask byteLength h p w =
     (let limit = maxSizeBytes (options h);
          c = theCache h w;
          serializedData = map serializeItem (store c);
          over = (tooBig byteLength limit serializedData \<and> serializedData \<noteq> []);
          trimmed = (if over then trim byteLength limit serializedData else serializedData);
          c1 = (if over then c\<lparr>store := rebuild trimmed\<rparr> else c);
          w1 = (setCache h c1 w)\<lparr>providerCalls := providerCalls w @ [Save p trimmed]\<rparr>;
          w2 = (if writeFails w p then w1
                else (setCache h (c1\<lparr>dirty := False\<rparr>) w1)
                       \<lparr>storage := (storage w)(p \<mapsto> Snapshot trimmed)\<rparr>)
      in w2\<lparr>lockers := (lockers w2)(saveLock h := unLock (lockers w2 (saveLock h)))\<rparr>)"

text \<open>The timeout of \<open>debounce\<close> for the key \<open>p\<close> fires.\<close>

definition fire :: "('m MemoryVectorDataSerialize list \<Rightarrow> nat) \<Rightarrow> string \<Rightarrow> 'm world \<Rightarrow> 'm world" where
  "fire byteLength p w =
     (case timers w p of
        None \<Rightarrow> w
      | Some h \<Rightarrow> saveTask byteLength h p (w\<lparr>timers := (timers w)(p := None)\<rparr>))"

text \<open>
  \<open>load\<close>, called once for a new \<open>StoreCache\<close>: a falsy path loads nothing; an error
  while loading empties the map.
\<close>

definition fromSerialized ::
  "'m MemoryVectorDataSerialize list \<Rightarrow> (string \<times> 'm entry) list \<Rightarrow> (string \<times> 'm entry) list" where
  "fromSerialized data m =
     foldl (\<lambda>m vectorData. map_set (fst vectorData)
              \<lparr>entry_metadata = snd (snd vectorData), entry_vector = fst (snd vectorData)\<rparr> m) m data"

definition load :: "VectorStore \<Rightarrow> 'm world \<Rightarrow> 'm world" where
  "load h w =
     (case storagePath (options h) of
        None \<Rightarrow> w
      | Some p \<Rightarrow>
          if p = [] then w
          else (case storage w p of
                  None \<Rightarrow> w\<lparr>providerCalls := providerCalls w @ [Exists p]\<rparr>
                | Some Unreadable \<Rightarrow>
                    (setCache h ((theCache h w)\<lparr>store := []\<rparr>) w)
                      \<lparr>providerCalls := providerCalls w @ [Exists p, Load p]\<rparr>
                | Some (Snapshot data) \<Rightarrow>
                    (setCache h ((theCache h w)\<lparr>store := fromSerialized data (store (theCache h w))\<rparr>) w)
                      \<lparr>providerCalls := providerCalls w @ [Exists p, Load p]\<rparr>))"

text \<open>
  The constructor with \<open>initializeStore\<close>: a missing path becomes \<open>default\<close>, the new
  \<open>Locker\<close> is unlocked, and the handle takes the \<open>StoreCache\<close> registered under its path
  or registers a new one, loaded from the storage.
\<close>

definition pathOf :: "MemoryVectorStoreOptions \<Rightarrow> string" where
  "pathOf opts = (case storagePath opts of None \<Rightarrow> ''default'' | Some s \<Rightarrow> s)"

definition construct ::
  "MemoryVectorParser \<Rightarrow> MemoryVectorStoreOptions \<Rightarrow> 'm world \<Rightarrow> VectorStore \<times> 'm world" where
  "construct parser opts w =
     (let p = pathOf opts;
          l = nLockers w;
          w1 = w\<lparr>lockers := (lockers w)(l := unLock newLocker), nLockers := l + 1\<rparr>;
          h = \<lparr>vectorParser = parser, options = opts\<lparr>storagePath := Some p\<rparr>,
               cache = 0, saveLock = l\<rparr>
      in case globalCache w1 p of
           Some a \<Rightarrow> (h\<lparr>cache := a\<rparr>, w1)
         | None \<Rightarrow>
             (let a = nCaches w1;
                  h1 = h\<lparr>cache := a\<rparr>;
                  w2 = w1\<lparr>caches := (caches w1)(a := \<lparr>dirty = False, store = []\<rparr>),
                          nCaches := a + 1\<rparr>;
                  w3 = load h1 w2
              in (h1, w3\<lparr>globalCache := (globalCache w3)(p \<mapsto> a)\<rparr>)))"

section \<open>The operations of the index\<close>

datatype error = ParserFailure string | Error string | TypeError

datatype 'm input = Text string | Document "'m MemoryDocument"

text \<open>
  \<open>add\<close>: a bare text becomes a document without metadata (\<open>asDocument\<close>);
  the parser is called with the content; a result that is not an array is
  refused; otherwise the entry is written, the state is marked dirty and, under
  \<open>autoSave\<close>, a save is scheduled.
\<close>

definition asDocument :: "'m input \<Rightarrow> 'm MemoryDocument" where
  "asDocument inp = (case inp of Text s \<Rightarrow> doc s None | Document x \<Rightarrow> doc (content x) (metadata x))"

definition add ::
  "VectorStore \<Rightarrow> 'm input \<Rightarrow> 'm world \<Rightarrow> (error + 'm MemoryVectorData) \<times> 'm world" where
  "add h inp w =
     (let d = asDocument inp;
          r = vectorParser h (parserCalls w) (content d);
          w1 = w\<lparr>parserCalls := parserCalls w @ [content d]\<rparr>
      in case r of
           ParserThrows e \<Rightarrow> (Inl (ParserFailure e), w1)
         | NotArray v \<Rightarrow> (Inl (Error ''Vector parser must return an array''), w1)
         | IsArray vec \<Rightarrow>
             (let c = theCache h w1;
                  w2 = setCache h
                         (c\<lparr>store := map_set (content d)
                                        \<lparr>entry_metadata = metadata d, entry_vector = vec\<rparr> (store c),
                            dirty := True\<rparr>) w1;
                  w3 = (if autoSave (options h) then save h w2 else w2)
              in (Inr \<lparr>document = d, vector = vec\<rparr>, w3)))"

definition remove :: "VectorStore \<Rightarrow> string \<Rightarrow> 'm world \<Rightarrow> 'm world" where
  "remove h c w =
     (let initialLength = length (store (theCache h w));
          w1 = setCache h ((theCache h w)\<lparr>store := map_delete c (store (theCache h w))\<rparr>) w
      in if length (store (theCache h w1)) \<noteq> initialLength
         then (let w2 = setCache h ((theCache h w1)\<lparr>dirty := True\<rparr>) w1
               in if autoSave (options h) then save h w2 else w2)
         else w1)"

definition clear :: "VectorStore \<Rightarrow> 'm world \<Rightarrow> 'm world" where
  "clear h w =
     (if length (store (theCache h w)) > 0
      then (let w1 = setCache h ((theCache h w)\<lparr>store := [], dirty := True\<rparr>) w
            in if autoSave (options h) then save h w1 else w1)
      else w)"

definition getAll :: "VectorStore \<Rightarrow> 'm world \<Rightarrow> 'm MemoryDocument list" where
  "getAll h w = map (\<lambda>e. \<lparr>content = fst e, metadata = entry_metadata (snd e)\<rparr>) (store (theCache h w))"

definition count :: "VectorStore \<Rightarrow> 'm world \<Rightarrow> nat" where
  "count h w = length (store (theCache h w))"

subsection \<open>Similarity search\<close>

text \<open>
  \<open>Array.prototype.sort\<close> with the comparator \<open>(a, b) => b.score - a.score\<close>. The sort
  is stable; \<open>a\<close> goes behind \<open>b\<close> exactly when the comparator is positive. For a
  comparator that is consistent every stable sort gives the list below; with a \<open>NaN\<close>
  score the comparator is not consistent and the language leaves the order open.
\<close>

definition comparator :: "'a \<times> jsnum \<Rightarrow> 'a \<times> jsnum \<Rightarrow> jsnum" where
  "comparator a b = jsub (snd b) (snd a)"

fun insertScored :: "'a \<times> jsnum \<Rightarrow> ('a \<times> jsnum) list \<Rightarrow> ('a \<times> jsnum) list" where
  "insertScored x [] = [x]"
| "insertScored x (y # ys) =
     (if jgt (comparator x y) (Number 0) then y # insertScored x ys else x # y # ys)"

fun sortScored :: "('a \<times> jsnum) list \<Rightarrow> ('a \<times> jsnum) list" where
  "sortScored [] = []"
| "sortScored (x # xs) = insertScored x (sortScored xs)"

text \<open>
  \<open>xs.slice(0, k)\<close> for an integer \<open>k\<close>, or for \<open>k\<close> omitted: a negative \<open>k\<close> counts from
  the end, no \<open>k\<close> is the whole array.
\<close>

definition slice0 :: "int option \<Rightarrow> 'a list \<Rightarrow> 'a list" where
  "slice0 k xs =
     (case k of
        None \<Rightarrow> xs
      | Some n \<Rightarrow> if n < 0 then take (nat (int (length xs) + n)) xs else take (nat n) xs)"

text \<open>
  The query vector: the stored one when the query is a key of the map, else the
  parser's answer.
\<close>

definition queryVector :: "VectorStore \<Rightarrow> string \<Rightarrow> 'm world \<Rightarrow> parsed \<times> 'm world" where
  "queryVector h query w =
     (case map_get query (store (theCache h w)) of
        Some e \<Rightarrow> (IsArray (entry_vector e), w)
      | None \<Rightarrow> (vectorParser h (parserCalls w) query,
                 w\<lparr>parserCalls := parserCalls w @ [query]\<rparr>))"

text \<open>
  One call \<open>cosineSimilarity(queryVector, vector)\<close>. When the parser gave \<open>undefined\<close> or
  \<open>null\<close>, reading \<open>a.length\<close> throws; when it gave a number, \<open>a.length\<close> is \<open>undefined\<close>,
  the loop is not entered and the score is \<open>0\<close>.
\<close>

fun scoreOf :: "parsed \<Rightarrow> jsval list \<Rightarrow> error + jsnum" where
  "scoreOf (IsArray a) b = Inr (cosineSimilarity a b)"
| "scoreOf (NotArray (JNum n)) b = Inr (Number 0)"
| "scoreOf (NotArray v) b = Inl TypeError"
| "scoreOf (ParserThrows e) b = Inl (ParserFailure e)"

fun scoreAll ::
  "parsed \<Rightarrow> (string \<times> 'm entry) list \<Rightarrow> 'm MemoryDocument list \<Rightarrow>
   error + ('m MemoryDocument \<times> jsnum) list" where
  "scoreAll q st [] = Inr []"
| "scoreAll q st (item # items) =
     (case map_get (content item) st of
        None \<Rightarrow> Inl TypeError
      | Some e \<Rightarrow>
          (case scoreOf q (entry_vector e) of
             Inl err \<Rightarrow> Inl err
           | Inr s \<Rightarrow>
               (case scoreAll q st items of
                  Inl err \<Rightarrow> Inl err
                | Inr rest \<Rightarrow> Inr ((item, s) # rest))))"

text \<open>The candidates: every stored document, narrowed by the filter when there is one.\<close>

definition candidates ::
  "('m MemoryDocument \<Rightarrow> bool) option \<Rightarrow> (string \<times> 'm entry) list \<Rightarrow> 'm MemoryDocument list" where
  "candidates flt st =
     (let all = map (\<lambda>e. \<lparr>content = fst e, metadata = entry_metadata (snd e)\<rparr>) st
      in case flt of None \<Rightarrow> all | Some f \<Rightarrow> filter f all)"

definition toResult :: "'m MemoryDocument \<times> jsnum \<Rightarrow> 'm ScoredDocument" where
  "toResult r = \<lparr>content = content (fst r), metadata = metadata (fst r), score = snd r\<rparr>"

text \<open>A call that waits on the gate is \<open>Suspended\<close>; otherwise it settles.\<close>

datatype 'a awaited = Suspended | Settled "error + 'a"

text \<open>The document part of a result.\<close>

definition toDocument :: "'m ScoredDocument \<Rightarrow> 'm MemoryDocument" where
  "toDocument r = \<lparr>content = content r, metadata = metadata r\<rparr>"

definition similaritySearch ::
  "VectorStore \<Rightarrow> string \<Rightarrow> int option \<Rightarrow> ('m MemoryDocument \<Rightarrow> bool) option \<Rightarrow> 'm world \<Rightarrow>
   'm ScoredDocument list awaited \<times> 'm world" where
  "similaritySearch h query k flt w =
     (if \<not> resolved (lockers w (saveLock h)) then (Suspended, w)
      else case queryVector h query w of
        (ParserThrows e, w1) \<Rightarrow> (Settled (Inl (ParserFailure e)), w1)
      | (q, w1) \<Rightarrow>
          (let st = store (theCache h w1)
           in case scoreAll q st (candidates flt st) of
                Inl err \<Rightarrow> (Settled (Inl err), w1)
              | Inr scoredResults \<Rightarrow>
                  (Settled (Inr (map toResult (slice0 k (sortScored scoredResults)))), w1)))"

section \<open>Example states\<close>

text \<open>
  A parser in the manner of the test suite's, a handle that saves on request only, and
  a process state whose single \<open>StoreCache\<close> holds a given map. They serve as concrete
  inputs below.
\<close>

definition lengthParser :: MemoryVectorParser where
  "lengthParser calls text = IsArray [JNum (Number (real (length text)))]"

definition manualOptions :: "string \<Rightarrow> MemoryVectorStoreOptions" where
  "manualOptions p =
     \<lparr>autoSave = False, debug = False, maxFileSizeMB = Number 1, storagePath = Some p\<rparr>"

definition plain :: "real list \<Rightarrow> unit entry" where
  "plain v = \<lparr>entry_metadata = None, entry_vector = numbers v\<rparr>"

definition worldOf :: "bool \<Rightarrow> (string \<times> 'm entry) list \<Rightarrow> 'm world" where
  "worldOf d st =
     \<lparr>caches = (\<lambda>_. \<lparr>dirty = d, store = st\<rparr>), nCaches = 1,
      lockers = (\<lambda>_. unLock newLocker), nLockers = 1,
      globalCache = [''p'' \<mapsto> 0], timers = Map.empty,
      storage = Map.empty, writeFails = (\<lambda>_. False),
      providerCalls = [], parserCalls = []\<rparr>"

definition handle :: VectorStore where
  "handle = \<lparr>vectorParser = lengthParser, options = manualOptions ''p'', cache = 0, saveLock = 0\<rparr>"

text \<open>A parser whose array holds \<open>undefined\<close>.\<close>

definition holeParser :: MemoryVectorParser where
  "holeParser calls text = IsArray [JUndefined]"

text \<open>A parser that gives \<open>undefined\<close>, which is no array.\<close>

definition noParser :: MemoryVectorParser where
  "noParser calls text = NotArray JUndefined"


text \<open>Options with a limit of forty bytes, and options whose limit is \<open>0\<close>.\<close>

definition fortyBytes :: MemoryVectorStoreOptions where
  "fortyBytes = (manualOptions ''p'')\<lparr>maxFileSizeMB := Number (40 / 1048576)\<rparr>"

definition zeroLimit :: MemoryVectorStoreOptions where
  "zeroLimit = (manualOptions ''p'')\<lparr>maxFileSizeMB := Number 0\<rparr>"

definition three :: "(string \<times> unit entry) list" where
  "three = [(''a'', plain [1]), (''b'', plain [2]), (''c'', plain [3])]"

definition five :: "(string \<times> unit entry) list" where
  "five = [(''a'', plain [1, 0]), (''b'', plain [0, 1]), (''c'', plain [-1, 0]),
           (''d'', plain [2, 0]), (''e'', plain [0, 2])]"

lemmas example_defs = handle_def fortyBytes_def zeroLimit_def worldOf_def five_def three_def
  plain_def holeParser_def noParser_def numbers_def manualOptions_def lengthParser_def doc_def theCache_def setCache_def newLocker_def lock_def unLock_def
  map_get_def elemAt_def candidates_def Let_def

section \<open>Cosine similarity computes the textbook formula on vectors of one length\<close>

lemma length_numbers [simp]: "length (numbers a) = length a"
  by (simp add: numbers_def)







section \<open>Ranking: sorting and slicing\<close>




















lemma content_toResult [simp]: "toDocument (toResult r) = fst r" "score (toResult r) = snd r"
  by (simp_all add: toResult_def toDocument_def)





section \<open>The search without a limit\<close>

text \<open>
  C2: the code has no default for \<open>k\<close>. With \<open>k\<close> omitted, \<open>slice(0, undefined)\<close> keeps
  the whole ranking: on a store of five documents the call returns all five, not four.
\<close>

theorem similaritySearch_without_k_returns_all:
  "length (store (theCache handle (worldOf True five))) = 5 \<and>
   fst (similaritySearch handle ''a'' None None (worldOf True five)) =
     Settled (Inr [\<lparr>content = ''a'', metadata = None, score = Number 1\<rparr>,
                   \<lparr>content = ''d'', metadata = None, score = Number 1\<rparr>,
                   \<lparr>content = ''b'', metadata = None, score = Number 0\<rparr>,
                   \<lparr>content = ''e'', metadata = None, score = Number 0\<rparr>,
                   \<lparr>content = ''c'', metadata = None, score = Number (- 1)\<rparr>])"
  by (simp add: similaritySearch_def queryVector_def cosineSimilarity_def cosineLoop.simps
      comparator_def toResult_def slice0_def example_defs)


section \<open>Frame lemmas for the process state\<close>

lemma setCache_fields [simp]:
  "parserCalls (setCache h c w) = parserCalls w"
  "providerCalls (setCache h c w) = providerCalls w"
  "globalCache (setCache h c w) = globalCache w"
  "timers (setCache h c w) = timers w"
  "lockers (setCache h c w) = lockers w"
  "storage (setCache h c w) = storage w"
  "writeFails (setCache h c w) = writeFails w"
  by (simp_all add: setCache_def)

lemma save_caches [simp]: "caches (save h w) = caches w"
  by (simp add: save_def split: option.splits)

lemma save_parserCalls [simp]: "parserCalls (save h w) = parserCalls w"
  by (simp add: save_def split: option.splits)

lemma save_providerCalls [simp]: "providerCalls (save h w) = providerCalls w"
  by (simp add: save_def split: option.splits)

lemma save_globalCache [simp]: "globalCache (save h w) = globalCache w"
  by (simp add: save_def split: option.splits)

lemma theCache_save [simp]: "theCache h' (save h w) = theCache h' w"
  by (simp add: theCache_def)

lemma theCache_setCache [simp]: "theCache h (setCache h c w) = c"
  by (simp add: theCache_def setCache_def)

lemma theCache_parserCalls [simp]: "theCache h (w\<lparr>parserCalls := x\<rparr>) = theCache h w"
  by (simp add: theCache_def)

lemma setCache_same [simp]: "setCache h (theCache h w) w = w"
  by (simp add: setCache_def theCache_def)

section \<open>Facts about the backing map\<close>



lemma keys_map_set_absent:
  "map_get k m = None \<Longrightarrow> keys (map_set k v m) = keys m @ [k]"
  by (induction m) (auto simp: map_get_def keys_def)


lemma map_delete_absent: "map_get c m = None \<Longrightarrow> map_delete c m = m"
proof -
  assume "map_get c m = None"
  then have "c \<notin> fst ` set m"
    by (simp add: map_get_def map_of_eq_None_iff)
  then have "\<forall>p\<in>set m. fst p \<noteq> c" by force
  then show ?thesis
    by (simp add: map_delete_def filter_id_conv)
qed

lemma map_delete_present: "map_get c m \<noteq> None \<Longrightarrow> length (map_delete c m) < length m"
proof -
  assume "map_get c m \<noteq> None"
  then have "c \<in> fst ` set m"
    by (simp add: map_get_def map_of_eq_None_iff)
  then obtain p where p: "p \<in> set m" "fst p = c"
    by (elim imageE) simp
  have "length (filter (\<lambda>p. fst p \<noteq> c) m) < length m"
    by (rule length_filter_less[OF p(1)]) (simp add: p(2))
  then show ?thesis
    by (simp add: map_delete_def)
qed

lemma map_get_map_delete: "map_get k (map_delete c m) = (if k = c then None else map_get k m)"
  by (induction m) (auto simp: map_get_def map_delete_def)

section \<open>Adding documents\<close>






text \<open>
  C3, as amended. When the parser's result is not an array, \<open>add\<close> throws the error
  \<open>Vector parser must return an array\<close>, and nothing but the record of parser calls
  changes: the backing map, the dirty flag, the timers and the gates are as before.
\<close>

theorem add_rejects_non_array:
  assumes "vectorParser h (parserCalls w) (content (asDocument inp)) = NotArray v"
  shows "add h inp w =
     (Inl (Error ''Vector parser must return an array''),
      w\<lparr>parserCalls := parserCalls w @ [content (asDocument inp)]\<rparr>) \<and>
     caches (snd (add h inp w)) = caches w \<and>
     timers (snd (add h inp w)) = timers w \<and>
     lockers (snd (add h inp w)) = lockers w"
  using assms by (simp add: add_def Let_def)

theorem add_rejects_non_array_witness:
  "vectorParser (handle\<lparr>vectorParser := noParser\<rparr>) (parserCalls (worldOf False three)) ''x'' = NotArray JUndefined \<and>
   fst (add (handle\<lparr>vectorParser := noParser\<rparr>) (Text ''x'') (worldOf False three)) =
     Inl (Error ''Vector parser must return an array'') \<and>
   caches (snd (add (handle\<lparr>vectorParser := noParser\<rparr>) (Text ''x'') (worldOf False three))) =
     caches (worldOf False three)"
proof -
  have d: "asDocument (Text ''x'' :: unit input) = \<lparr>content = ''x'', metadata = None\<rparr>"
    by (simp add: asDocument_def doc_def)
  have parser: "vectorParser (handle\<lparr>vectorParser := noParser\<rparr>) (parserCalls (worldOf False three :: unit world))
      (content (asDocument (Text ''x'' :: unit input))) = NotArray JUndefined"
    by (simp add: d) (simp add: example_defs)
  show ?thesis
    using add_rejects_non_array[OF parser] parser by (simp add: d)
qed

text \<open>
  C3 as stated fails for an array with an element that is not a number: only
  \<open>Array.isArray\<close> is checked. The array \<open>[undefined]\<close> is stored, and the state
  becomes dirty.
\<close>

theorem add_accepts_array_of_undefined_counterexample:
  "\<not> list_all isNumber [JUndefined] \<and>
   vectorParser (handle\<lparr>vectorParser := holeParser\<rparr>) (parserCalls (worldOf False three)) ''x'' = IsArray [JUndefined] \<and>
   fst (add (handle\<lparr>vectorParser := holeParser\<rparr>) (Text ''x'') (worldOf False three)) =
     Inr \<lparr>document = \<lparr>content = ''x'', metadata = None\<rparr>, vector = [JUndefined]\<rparr> \<and>
   store (theCache handle (snd (add (handle\<lparr>vectorParser := holeParser\<rparr>) (Text ''x'') (worldOf False three)))) =
     three @ [(''x'', \<lparr>entry_metadata = None, entry_vector = [JUndefined]\<rparr>)] \<and>
   dirty (theCache handle (snd (add (handle\<lparr>vectorParser := holeParser\<rparr>) (Text ''x'') (worldOf False three)))) \<and>
   \<not> dirty (theCache handle (worldOf False three))"
  by (simp add: add_def asDocument_def save_def example_defs)

section \<open>Saving a clean state, or without a path\<close>

text \<open>
  C8. When the state is not dirty, or the storage path is falsy (missing or empty),
  \<open>save\<close> leaves the whole process state as it is: the backing map, the dirty flag and
  the gate are unchanged, no task is scheduled, and the provider is not called.
\<close>

theorem save_noop:
  assumes "\<not> dirty (theCache h w) \<or> storagePath (options h) = None \<or> storagePath (options h) = Some []"
  shows "save h w = w"
  using assms by (auto simp: save_def split: option.splits)

theorem save_noop_witness:
  "\<not> dirty (theCache handle (worldOf False three)) \<and>
   save handle (worldOf False three) = worldOf False three \<and>
   storagePath (options (handle\<lparr>options := (manualOptions [])\<rparr>)) = Some [] \<and>
   save (handle\<lparr>options := (manualOptions [])\<rparr>) (worldOf True three) = worldOf True three"
proof -
  have clean: "\<not> dirty (theCache handle (worldOf False three))"
    by (simp add: example_defs)
  have pathless: "storagePath (options (handle\<lparr>options := (manualOptions [])\<rparr>)) = Some []"
    by (simp add: example_defs)
  show ?thesis
    using save_noop[of handle "worldOf False three"]
      save_noop[of "handle\<lparr>options := (manualOptions [])\<rparr>" "worldOf True three"] clean pathless
    by simp
qed

section \<open>Removing, clearing and reading\<close>

text \<open>
  C9. \<open>remove\<close>, \<open>clear\<close>, \<open>getAll\<close> and \<open>count\<close> have no failing path: they are total
  functions of the state without an error result. \<open>remove\<close> of a content that is not a
  key leaves the whole state as it is, the dirty flag included; \<open>remove\<close> of a key
  deletes the entry and sets the dirty flag; so after \<open>remove\<close> the state is dirty
  exactly when it was dirty before or an entry was deleted. \<open>clear\<close> of an empty map
  changes nothing, and after \<open>clear\<close> the map is empty.
\<close>

theorem remove_absent_noop:
  "(map_get c (store (theCache h w)) = None \<longrightarrow> remove h c w = w) \<and>
   (map_get c (store (theCache h w)) \<noteq> None \<longrightarrow>
      dirty (theCache h (remove h c w)) \<and>
      map_get c (store (theCache h (remove h c w))) = None \<and>
      count h (remove h c w) < count h w) \<and>
   (dirty (theCache h (remove h c w)) =
      (dirty (theCache h w) \<or> map_get c (store (theCache h w)) \<noteq> None)) \<and>
   (store (theCache h w) = [] \<longrightarrow> clear h w = w) \<and>
   getAll h (clear h w) = [] \<and> count h (clear h w) = 0 \<and>
   length (getAll h w) = count h w"
proof -
  have absent: "remove h c w = w" if "map_get c (store (theCache h w)) = None"
    using that by (simp add: remove_def Let_def map_delete_absent)
  have present: "dirty (theCache h (remove h c w)) \<and>
      map_get c (store (theCache h (remove h c w))) = None \<and>
      count h (remove h c w) < count h w" if "map_get c (store (theCache h w)) \<noteq> None"
    using map_delete_present[OF that]
    by (simp add: remove_def Let_def count_def map_get_map_delete)
  have dirt: "dirty (theCache h (remove h c w)) =
      (dirty (theCache h w) \<or> map_get c (store (theCache h w)) \<noteq> None)"
  proof (cases "map_get c (store (theCache h w)) = None")
    case True
    then show ?thesis by (simp add: absent)
  next
    case False
    then show ?thesis using present by simp
  qed
  have cl0: "clear h w = w" if "store (theCache h w) = []"
    using that by (simp add: clear_def)
  have cl1: "getAll h (clear h w) = []"
    by (simp add: clear_def getAll_def Let_def)
  have cl2: "count h (clear h w) = 0"
    by (simp add: clear_def count_def Let_def)
  have len: "length (getAll h w) = count h w"
    by (simp add: getAll_def count_def)
  show ?thesis
    using absent present dirt cl0 cl1 cl2 len by blast
qed

theorem remove_absent_noop_witness:
  "map_get ''z'' (store (theCache handle (worldOf False three))) = None \<and>
   remove handle ''z'' (worldOf False three) = worldOf False three \<and>
   \<not> dirty (theCache handle (remove handle ''z'' (worldOf False three))) \<and>
   map_get ''b'' (store (theCache handle (worldOf False three))) \<noteq> None \<and>
   dirty (theCache handle (remove handle ''b'' (worldOf False three))) \<and>
   clear handle (worldOf False []) = worldOf False ([] :: (string \<times> unit entry) list)"
proof -
  have absent: "map_get ''z'' (store (theCache handle (worldOf False three))) = None"
    by (simp add: example_defs)
  have present: "map_get ''b'' (store (theCache handle (worldOf False three))) \<noteq> None"
    by (simp add: example_defs)
  have clean: "\<not> dirty (theCache handle (worldOf False three))"
    by (simp add: example_defs)
  have empty: "store (theCache handle (worldOf False ([] :: (string \<times> unit entry) list))) = []"
    by (simp add: example_defs)
  show ?thesis
    using remove_absent_noop[of "''z''" handle "worldOf False three"]
      remove_absent_noop[of "''b''" handle "worldOf False three"]
      remove_absent_noop[of "''z''" handle "worldOf False ([] :: (string \<times> unit entry) list)"]
      absent present clean empty
    by simp
qed

section \<open>The save task: trimming to the size limit\<close>

lemma theCache_fields [simp]:
  "theCache h (w\<lparr>lockers := l\<rparr>) = theCache h w"
  "theCache h (w\<lparr>timers := t\<rparr>) = theCache h w"
  "theCache h (w\<lparr>storage := s\<rparr>) = theCache h w"
  "theCache h (w\<lparr>providerCalls := pc\<rparr>) = theCache h w"
  by (simp_all add: theCache_def)









lemma entry_eta [simp]:
  "\<lparr>entry_metadata = entry_metadata e, entry_vector = entry_vector e\<rparr> = (e :: 'm entry)"
  by (cases e) simp




text \<open>
  How the task comes to run: \<open>save\<close> on a dirty state with a path closes the gate and
  leaves the task in the timer table, and the timer's expiry runs it.
\<close>

lemma save_schedules:
  assumes "dirty (theCache h w)" and "storagePath (options h) = Some p" and "p \<noteq> []"
  shows "timers (save h w) p = Some h"
    and "\<not> resolved (lockers (save h w) (saveLock h))"
  using assms by (simp_all add: save_def lock_def)

lemma fire_runs_task:
  "timers w p = Some h \<Longrightarrow>
   fire byteLength p w = saveTask byteLength h p (w\<lparr>timers := (timers w)(p := None)\<rparr>)"
  by (simp add: fire_def)

lemma saveTask_opens_gate: "resolved (lockers (saveTask byteLength h p w) (saveLock h))"
  by (simp add: saveTask_def Let_def unLock_def)




section \<open>Handles on one storage path\<close>

lemma load_globalCache [simp]: "globalCache (load h w) = globalCache w"
  by (simp add: load_def split: option.splits stored.splits)

lemma construct_registers:
  "globalCache (snd (construct parser opts w)) (pathOf opts) =
     Some (cache (fst (construct parser opts w)))"
  by (simp add: construct_def Let_def split: option.splits)


lemma add_globalCache: "globalCache (snd (add h inp w)) = globalCache w"
  by (simp add: add_def Let_def split: parsed.splits)

lemma remove_globalCache: "globalCache (remove h c w) = globalCache w"
  by (simp add: remove_def Let_def)

lemma clear_globalCache: "globalCache (clear h w) = globalCache w"
  by (simp add: clear_def Let_def)

lemma saveTask_globalCache: "globalCache (saveTask f h p w) = globalCache w"
  by (simp add: saveTask_def Let_def)

lemma fire_globalCache: "globalCache (fire f p w) = globalCache w"
  by (simp add: fire_def saveTask_globalCache split: option.splits)

lemma queryVector_globalCache: "globalCache (snd (queryVector h q w)) = globalCache w"
  by (simp add: queryVector_def split: option.splits)

lemma similaritySearch_globalCache: "globalCache (snd (similaritySearch h q k flt w)) = globalCache w"
proof (cases "queryVector h q w")
  case (Pair r w1)
  then have "globalCache w1 = globalCache w"
    using queryVector_globalCache[of h q w] by simp
  then show ?thesis
    using Pair by (simp add: similaritySearch_def Let_def split: parsed.splits sum.splits)
qed









lemma document_eta [simp]:
  "\<lparr>content = content d, metadata = metadata d\<rparr> = (d :: 'm MemoryDocument)"
  by (cases d) simp









end
